theory Spec2Isabelle
  imports Main "HOL-Library.Monad_Syntax"
begin

section \<open>Python values\<close>

text \<open>
  The exceptions that the modelled code can meet. All of them are subclasses of Python's
  \<^verbatim>\<open>Exception\<close>, so an \<^verbatim>\<open>except Exception\<close> clause catches each of them;
  \<open>TimeoutException\<close> stands for \<^verbatim>\<open>httpx.TimeoutException\<close> and \<open>ApiException\<close> carries
  its message.
\<close>

datatype py_error =
    AttributeError | KeyError | TypeError | IndexError | ValueError | OverflowError
  | ValidationError | JSONDecodeError | DatabaseError | TimeoutException | ConnectError
  | ApiException string

text \<open>
  A Python float is kept as mantissa and exponent (value \<open>m * 2 ^ e\<close>), infinity or NaN.
  The model never computes with floats; it only asks whether one is zero.
\<close>

datatype pyfloat = Finite int int | Infinite bool | NaN

text \<open>
  What \<^verbatim>\<open>resp.json()\<close> can return. A JSON object is an association list with distinct
  keys; a string is a list of characters.
\<close>

datatype json =
    JNull | JBool bool | JInt int | JFloat pyfloat | JStr string
  | JArr "json list" | JObj "(string \<times> json) list"

text \<open>Python truthiness (\<^verbatim>\<open>if x\<close>, \<^verbatim>\<open>x or y\<close>).\<close>

fun truthy :: "json \<Rightarrow> bool" where
  "truthy JNull = False"
| "truthy (JBool b) = b"
| "truthy (JInt i) = (i \<noteq> 0)"
| "truthy (JFloat x) = (case x of Finite m e \<Rightarrow> m \<noteq> 0 | Infinite s \<Rightarrow> True | NaN \<Rightarrow> True)"
| "truthy (JStr s) = (s \<noteq> [])"
| "truthy (JArr xs) = (xs \<noteq> [])"
| "truthy (JObj kv) = (kv \<noteq> [])"

definition py_or :: "json \<Rightarrow> json \<Rightarrow> json" where
  "py_or x y = (if truthy x then x else y)"

text \<open>\<^verbatim>\<open>d.get(key, default)\<close> on the entries of a dict.\<close>

definition get :: "(string \<times> json) list \<Rightarrow> string \<Rightarrow> json \<Rightarrow> json" where
  "get kv k dflt = (case map_of kv k of Some v \<Rightarrow> v | None \<Rightarrow> dflt)"

text \<open>\<^verbatim>\<open>x[0]\<close>: the first element of a list or string; a dict with string keys has no key
  \<^verbatim>\<open>0\<close>; the other values are not subscriptable.\<close>

fun subscript0 :: "json \<Rightarrow> py_error + json" where
  "subscript0 (JArr (x # xs)) = Inr x"
| "subscript0 (JArr []) = Inl IndexError"
| "subscript0 (JStr (c # cs)) = Inr (JStr [c])"
| "subscript0 (JStr []) = Inl IndexError"
| "subscript0 (JObj kv) = Inl KeyError"
| "subscript0 JNull = Inl TypeError"
| "subscript0 (JBool b) = Inl TypeError"
| "subscript0 (JInt i) = Inl TypeError"
| "subscript0 (JFloat x) = Inl TypeError"

text \<open>\<^verbatim>\<open>table.get(key, default)\<close> on a dict with string keys: a list or dict key is
  unhashable and raises \<^verbatim>\<open>TypeError\<close>; any other key that is not in the table gives the
  default.\<close>

fun table_get :: "(string \<rightharpoonup> int) \<Rightarrow> json \<Rightarrow> int \<Rightarrow> py_error + int" where
  "table_get tbl (JStr s) dflt = Inr (case tbl s of Some v \<Rightarrow> v | None \<Rightarrow> dflt)"
| "table_get tbl (JArr xs) dflt = Inl TypeError"
| "table_get tbl (JObj kv) dflt = Inl TypeError"
| "table_get tbl JNull dflt = Inr dflt"
| "table_get tbl (JBool b) dflt = Inr dflt"
| "table_get tbl (JInt i) dflt = Inr dflt"
| "table_get tbl (JFloat x) dflt = Inr dflt"

text \<open>\<^verbatim>\<open>for x in v\<close>: a list gives its elements, a dict its keys, a string its characters;
  the other values are not iterable.\<close>

fun py_iter :: "json \<Rightarrow> py_error + json list" where
  "py_iter (JArr xs) = Inr xs"
| "py_iter (JObj kv) = Inr (map (\<lambda>(k, v). JStr k) kv)"
| "py_iter (JStr s) = Inr (map (\<lambda>c. JStr [c]) s)"
| "py_iter JNull = Inl TypeError"
| "py_iter (JBool b) = Inl TypeError"
| "py_iter (JInt i) = Inl TypeError"
| "py_iter (JFloat x) = Inl TypeError"

text \<open>Sequencing of steps that may raise.\<close>

definition bind_exc :: "py_error + 'a \<Rightarrow> ('a \<Rightarrow> py_error + 'b) \<Rightarrow> py_error + 'b" where
  "bind_exc r f = (case r of Inl e \<Rightarrow> Inl e | Inr x \<Rightarrow> f x)"

section \<open>Schemas (app/schemas/api\_schemas.py)\<close>

text \<open>\<^verbatim>\<open>LoadAdvertsDirection\<close> is an \<^verbatim>\<open>IntEnum\<close>; \<^verbatim>\<open>ReadAdvertsRequest.Direction\<close> is a plain
  int that the code compares with its members.\<close>

definition Prev :: int where "Prev = 1"
definition Next :: int where "Next = 2"
definition Latest :: int where "Latest = 3"

record ReadAdvertsRequest =
  AdvertId :: "int option"
  Direction :: int
  LastViewId :: "int option"

record RangeModel =
  range_from :: "int option"
  range_to :: "int option"

text \<open>
  The constructor of \<^verbatim>\<open>RangeModel\<close>: each field is \<^verbatim>\<open>Optional[int]\<close> with a default,
  \<^verbatim>\<open>Field(0, alias="from")\<close> and \<^verbatim>\<open>Field(2**31 - 1, alias="to")\<close>. An argument that the caller
  leaves out (\<open>None\<close> here) takes the default; an argument that is passed (\<open>Some v\<close>, where
  \<open>v\<close> may be Python's \<^verbatim>\<open>None\<close>) is stored.
\<close>

definition RangeModel_init :: "int option option \<Rightarrow> int option option \<Rightarrow> RangeModel" where
  "RangeModel_init from_arg to_arg =
     \<lparr> range_from = (case from_arg of None \<Rightarrow> Some 0 | Some v \<Rightarrow> v),
       range_to = (case to_arg of None \<Rightarrow> Some (2 ^ 31 - 1) | Some v \<Rightarrow> v) \<rparr>"

record FilterModel =
  CountryId :: int
  RegionId :: int
  Districts :: "int list option"
  Types :: "int list option"
  Rooms :: "int list option"
  Agency :: bool
  Area :: "RangeModel option"
  Price :: "RangeModel option"

record AdvertModel =
  advert_id :: int
  sourceId :: int
  typeId :: int
  url :: string
  regionId :: int
  region :: string
  district :: "string option"
  title :: string
  photos :: "string list"
  rooms :: "int option"
  area :: "pyfloat option"
  price :: "pyfloat option"
  currency :: string
  extPrice :: "string option"
  agency :: bool
  date :: "int option"
  createdAt :: "int option"
  validTo :: "int option"

section \<open>The service's surroundings\<close>

datatype param = PStr string | PStrs "string list" | PInt int | PInts "int list" | PBool bool

type_synonym params = "string \<rightharpoonup> param"

text \<open>The outcome of \<^verbatim>\<open>client.get(url, params=...)\<close>: a response with its status code and
  what \<^verbatim>\<open>resp.json()\<close> would give (or raise), or an exception of the client.\<close>

datatype http_result = HttpResponse int "py_error + json" | HttpRaises py_error

record datetime =
  year :: int
  month :: int
  day :: int
  hour :: int
  minute :: int
  second :: int
  microsecond :: int

record DbRegion =
  reg_id :: int
  reg_name :: string
  reg_names :: "string option list option"
  reg_status :: bool

text \<open>
  Everything the service reaches outside this repository's code, as data:
  \<^item> \<open>base_url\<close>, \<open>endpoint\<close>: the settings;
  \<^item> \<open>http_get\<close>: the HTTP client;
  \<^item> \<open>district_cache\<close>: the cache of \<^verbatim>\<open>DistrictMappingService\<close> once it is loaded;
  \<^item> \<open>read_regions\<close>: the outcome of \<^verbatim>\<open>DbRegion.ReadList(db)\<close>;
  \<^item> \<open>capitalize\<close>: \<^verbatim>\<open>str.capitalize\<close>;
  \<^item> \<open>strptime\<close>: \<^verbatim>\<open>datetime.strptime(string, format)\<close>;
  \<^item> \<open>utcnow\<close>: the clock, \<open>utcnow k\<close> being what the \<open>k\<close>-th call of
    \<^verbatim>\<open>datetime.utcnow()\<close> returns;
  \<^item> \<open>epoch_millis\<close>: \<^verbatim>\<open>int(d.timestamp() * 1000)\<close>;
  \<^item> \<open>pydantic_int\<close>, \<open>pydantic_float\<close>, \<open>pydantic_str\<close>, \<open>pydantic_bool\<close>: what pydantic
    makes of an input that is not already of the field's type (\<open>None\<close> when it rejects it).
\<close>

record env =
  base_url :: string
  endpoint :: string
  http_get :: "string \<Rightarrow> params \<Rightarrow> http_result"
  district_cache :: "int \<rightharpoonup> string"
  read_regions :: "py_error + DbRegion list"
  capitalize :: "string \<Rightarrow> string"
  strptime :: "string \<Rightarrow> string \<Rightarrow> py_error + datetime"
  utcnow :: "nat \<Rightarrow> datetime"
  epoch_millis :: "datetime \<Rightarrow> py_error + int"
  pydantic_int :: "json \<Rightarrow> int option"
  pydantic_float :: "json \<Rightarrow> pyfloat option"
  pydantic_str :: "json \<Rightarrow> string option"
  pydantic_bool :: "json \<Rightarrow> bool option"

section \<open>ExternalListingsService: the tables\<close>

datatype BuildingType =
    BLOCK | APARTMENT_BUILDING | TENEMENT | HOUSE | INFILL | RIBBON | LOFT | WOLNOSTOJACY | OTHER

fun bt_value :: "BuildingType \<Rightarrow> string" where
  "bt_value BLOCK = ''BLOCK''"
| "bt_value APARTMENT_BUILDING = ''APARTMENT_BUILDING''"
| "bt_value TENEMENT = ''TENEMENT''"
| "bt_value HOUSE = ''HOUSE''"
| "bt_value INFILL = ''INFILL''"
| "bt_value RIBBON = ''RIBBON''"
| "bt_value LOFT = ''LOFT''"
| "bt_value WOLNOSTOJACY = ''WOLNOSTOJACY''"
| "bt_value OTHER = ''OTHER''"

definition source_mapping :: "string \<rightharpoonup> int" where
  "source_mapping =
     [''olx'' \<mapsto> 1, ''otodom'' \<mapsto> 2, ''gratka'' \<mapsto> 5, ''domiporta'' \<mapsto> 4,
      ''morizon'' \<mapsto> 3, ''gumtree'' \<mapsto> 6]"

definition type_mapping :: "string \<rightharpoonup> int" where
  "type_mapping = [''RENT'' \<mapsto> 1, ''SALE'' \<mapsto> 2]"

definition reverse_building_type_mapping :: "int \<rightharpoonup> BuildingType list" where
  "reverse_building_type_mapping =
     [1 \<mapsto> [OTHER],
      2 \<mapsto> [BLOCK, APARTMENT_BUILDING, INFILL, RIBBON, LOFT],
      3 \<mapsto> [TENEMENT, HOUSE, WOLNOSTOJACY]]"

section \<open>The query-parameter builder\<close>

text \<open>\<^verbatim>\<open>DistrictMappingService.get_district_names\<close>: the names of the ids that the cache
  knows, in order; an id with no name, or with an empty name, is skipped.\<close>

definition get_district_names :: "env \<Rightarrow> int list \<Rightarrow> string list" where
  "get_district_names env district_ids =
     concat (map (\<lambda>district_id.
        case district_cache env district_id of
          None \<Rightarrow> []
        | Some name \<Rightarrow> (if name \<noteq> [] then [name] else [])) district_ids)"

text \<open>The list comprehension over \<^verbatim>\<open>filter_model.Types\<close>.\<close>

definition expand_types :: "int list \<Rightarrow> string list" where
  "expand_types ts =
     concat (map (\<lambda>t.
        case reverse_building_type_mapping t of
          None \<Rightarrow> []
        | Some bts \<Rightarrow> map bt_value bts) ts)"

definition add_building_type :: "FilterModel \<Rightarrow> params \<Rightarrow> params" where
  "add_building_type f q =
     (case Types f of
        None \<Rightarrow> q
      | Some ts \<Rightarrow> (if ts \<noteq> [] then q(''building_type'' \<mapsto> PStrs (expand_types ts)) else q))"

text \<open>A pydantic model has neither \<^verbatim>\<open>__bool__\<close> nor \<^verbatim>\<open>__len__\<close>, so
  \<^verbatim>\<open>if filter_model.Price\<close> asks whether the range is present.\<close>

definition add_price :: "FilterModel \<Rightarrow> params \<Rightarrow> params" where
  "add_price f q =
     (case Price f of
        None \<Rightarrow> q
      | Some r \<Rightarrow>
          (let q1 = (case range_from r of None \<Rightarrow> q | Some v \<Rightarrow> q(''min_price'' \<mapsto> PInt v))
           in (case range_to r of None \<Rightarrow> q1 | Some v \<Rightarrow> q1(''max_price'' \<mapsto> PInt v))))"

definition add_area :: "FilterModel \<Rightarrow> params \<Rightarrow> params" where
  "add_area f q =
     (case Area f of
        None \<Rightarrow> q
      | Some r \<Rightarrow>
          (let q1 = (case range_from r of None \<Rightarrow> q | Some v \<Rightarrow> q(''min_area'' \<mapsto> PInt v))
           in (case range_to r of None \<Rightarrow> q1 | Some v \<Rightarrow> q1(''max_area'' \<mapsto> PInt v))))"

definition add_rooms :: "FilterModel \<Rightarrow> params \<Rightarrow> params" where
  "add_rooms f q =
     (case Rooms f of
        None \<Rightarrow> q
      | Some rs \<Rightarrow> (if rs \<noteq> [] \<and> length rs > 0 then q(''rooms'' \<mapsto> PInts rs) else q))"

definition add_agency :: "FilterModel \<Rightarrow> params \<Rightarrow> params" where
  "add_agency f q = (if Agency f then q(''is_business'' \<mapsto> PBool False) else q)"

definition add_districts :: "env \<Rightarrow> FilterModel \<Rightarrow> params \<Rightarrow> params" where
  "add_districts env f q =
     (case Districts f of
        None \<Rightarrow> q
      | Some ds \<Rightarrow>
          (if ds \<noteq> [] \<and> length ds > 0
           then (let district_names = get_district_names env ds
                 in if district_names \<noteq> [] then q(''district'' \<mapsto> PStrs district_names) else q)
           else q))"

text \<open>The loop over the regions: the first region with the filter's id sets \<^verbatim>\<open>city\<close> and
  ends the loop. \<^verbatim>\<open>reg.names[-1]\<close> raises when the column is NULL or the array is empty,
  and \<^verbatim>\<open>capitalize\<close> when the last name is NULL.\<close>

fun add_city :: "env \<Rightarrow> DbRegion list \<Rightarrow> int \<Rightarrow> params \<Rightarrow> py_error + params" where
  "add_city env [] region_id q = Inr q"
| "add_city env (reg # regions) region_id q =
     (if reg_id reg = region_id
      then (case reg_names reg of
              None \<Rightarrow> Inl TypeError
            | Some names \<Rightarrow>
                (if names = [] then Inl IndexError
                 else (case last names of
                         None \<Rightarrow> Inl AttributeError
                       | Some region_name \<Rightarrow> Inr (q(''city'' \<mapsto> PStrs [capitalize env region_name])))))
      else add_city env regions region_id q)"

text \<open>
  \<^verbatim>\<open>_build_query_filters\<close>. A filter that is \<^verbatim>\<open>None\<close> has no attribute \<^verbatim>\<open>Types\<close>. After the
  type filter the code runs \<^verbatim>\<open>print(params["building_type"])\<close>, which raises \<^verbatim>\<open>KeyError\<close>
  when the key was not set.
\<close>

definition build_query_filters ::
  "env \<Rightarrow> FilterModel option \<Rightarrow> ReadAdvertsRequest \<Rightarrow> py_error + params" where
  "build_query_filters env filter_model pagination =
     (case filter_model of
        None \<Rightarrow> Inl AttributeError
      | Some f \<Rightarrow>
          (let q1 = add_building_type f [''offer_type'' \<mapsto> PStr ''RENT'']
           in (case q1 ''building_type'' of
                 None \<Rightarrow> Inl KeyError
               | Some printed \<Rightarrow>
                   (let q2 = add_districts env f (add_agency f (add_rooms f (add_area f (add_price f q1))))
                    in if RegionId f \<noteq> 0
                       then bind_exc (read_regions env) (\<lambda>regions. add_city env regions (RegionId f) q2)
                       else Inr q2))))"

text \<open>The parameters as they stand when \<^verbatim>\<open>_build_query_filters\<close> reaches the region
  filter, for a filter whose types \<open>ts\<close> are not empty.\<close>

definition filters_before_city :: "env \<Rightarrow> FilterModel \<Rightarrow> int list \<Rightarrow> params" where
  "filters_before_city env f ts =
     add_districts env f (add_agency f (add_rooms f (add_area f (add_price f
       [''offer_type'' \<mapsto> PStr ''RENT'', ''building_type'' \<mapsto> PStrs (expand_types ts)]))))"

text \<open>\<^verbatim>\<open>if x\<close> on an \<^verbatim>\<open>Optional[int]\<close>: true when \<open>x\<close> is neither \<^verbatim>\<open>None\<close> nor
  \<^verbatim>\<open>0\<close>; the result is the value when it is.\<close>

definition nonzero :: "int option \<Rightarrow> int option" where
  "nonzero x = (case x of None \<Rightarrow> None | Some v \<Rightarrow> (if v \<noteq> 0 then Some v else None))"

definition build_query_params_missed ::
  "env \<Rightarrow> FilterModel option \<Rightarrow> ReadAdvertsRequest \<Rightarrow> py_error + params" where
  "build_query_params_missed env filter_model pagination =
     bind_exc (build_query_filters env filter_model pagination) (\<lambda>q.
       Inr (case nonzero (LastViewId pagination) of
              None \<Rightarrow> q
            | Some v \<Rightarrow> q(''id'' \<mapsto> PInt v)))"

text \<open>The pagination part of \<^verbatim>\<open>_build_query_params_pagination\<close>.\<close>

definition add_pagination :: "ReadAdvertsRequest \<Rightarrow> params \<Rightarrow> params" where
  "add_pagination pagination q =
     (let q1 = q(''limit'' \<mapsto> PInt 10)
      in (case nonzero (AdvertId pagination) of
            Some a \<Rightarrow>
              q1(''direction'' \<mapsto> PStr (if Direction pagination = Prev then ''after'' else ''before''),
                 ''id'' \<mapsto> PInt a)
          | None \<Rightarrow>
              (if Direction pagination = Latest
               then q1(''direction'' \<mapsto> PStr ''latest'')
               else q1)))"

definition build_query_params_pagination ::
  "env \<Rightarrow> FilterModel option \<Rightarrow> ReadAdvertsRequest \<Rightarrow> py_error + params" where
  "build_query_params_pagination env filter_model pagination =
     bind_exc (build_query_filters env filter_model pagination) (\<lambda>q.
       Inr (add_pagination pagination q))"

section \<open>The fetches\<close>

text \<open>The two outer handlers of \<^verbatim>\<open>get_listings\<close> and \<^verbatim>\<open>get_missed\<close>:
  \<^verbatim>\<open>except httpx.TimeoutException\<close>, then \<^verbatim>\<open>except Exception\<close>.\<close>

definition outer_handlers :: "py_error \<Rightarrow> py_error" where
  "outer_handlers e =
     (if e = TimeoutException then ApiException ''External listings API timeout''
      else ApiException ''Internal error in listings service'')"

text \<open>
  \<^verbatim>\<open>get_listings\<close>. The parameters are built outside the inner \<^verbatim>\<open>try\<close>; the request, the
  status test, \<^verbatim>\<open>resp.json()\<close> and \<^verbatim>\<open>data.get("items", [])\<close> are inside it, and its
  \<^verbatim>\<open>except Exception\<close> sets the results to the empty list.
\<close>

definition get_listings ::
  "env \<Rightarrow> FilterModel option \<Rightarrow> ReadAdvertsRequest \<Rightarrow> py_error + json" where
  "get_listings env filter_model pagination =
     (case build_query_params_pagination env filter_model pagination of
        Inl e \<Rightarrow> Inl (outer_handlers e)
      | Inr params_pagination \<Rightarrow>
          (case http_get env (base_url env @ endpoint env) params_pagination of
             HttpRaises e \<Rightarrow> Inr (JArr [])
           | HttpResponse status_code body \<Rightarrow>
               (if status_code = 200
                then (case body of
                        Inl e \<Rightarrow> Inr (JArr [])
                      | Inr data \<Rightarrow>
                          (case data of
                             JObj kv \<Rightarrow> Inr (get kv ''items'' (JArr []))
                           | _ \<Rightarrow> Inr (JArr [])))
                else Inr (JArr []))))"

text \<open>\<^verbatim>\<open>get_missed\<close>, of the same shape, on the count endpoint.\<close>

definition get_missed ::
  "env \<Rightarrow> FilterModel option \<Rightarrow> ReadAdvertsRequest \<Rightarrow> py_error + json" where
  "get_missed env filter_model pagination =
     (case build_query_params_missed env filter_model pagination of
        Inl e \<Rightarrow> Inl (outer_handlers e)
      | Inr params_missed \<Rightarrow>
          (case http_get env (base_url env @ ''/api/v1/listings/new/count'') params_missed of
             HttpRaises e \<Rightarrow> Inr (JInt 0)
           | HttpResponse status_code body \<Rightarrow>
               (if status_code = 200
                then (case body of
                        Inl e \<Rightarrow> Inr (JInt 0)
                      | Inr data \<Rightarrow>
                          (case data of
                             JObj kv \<Rightarrow> Inr (get kv ''total'' (JInt 0))
                           | _ \<Rightarrow> Inr (JInt 0)))
                else Inr (JInt 0))))"

section \<open>The listing mapper\<close>

text \<open>
  The constructor of \<^verbatim>\<open>AdvertModel\<close> validates every argument against the type of its
  field. A value of the field's type is taken as it is, \<^verbatim>\<open>None\<close> is taken by an
  \<^verbatim>\<open>Optional\<close> field, and anything else is left to pydantic's conversions.
\<close>

definition validate_int :: "env \<Rightarrow> json \<Rightarrow> int option" where
  "validate_int env v = (case v of JInt i \<Rightarrow> Some i | _ \<Rightarrow> pydantic_int env v)"

definition validate_str :: "env \<Rightarrow> json \<Rightarrow> string option" where
  "validate_str env v = (case v of JStr s \<Rightarrow> Some s | _ \<Rightarrow> pydantic_str env v)"

definition validate_bool :: "env \<Rightarrow> json \<Rightarrow> bool option" where
  "validate_bool env v = (case v of JBool b \<Rightarrow> Some b | _ \<Rightarrow> pydantic_bool env v)"

definition validate_float :: "env \<Rightarrow> json \<Rightarrow> pyfloat option" where
  "validate_float env v = (case v of JFloat x \<Rightarrow> Some x | _ \<Rightarrow> pydantic_float env v)"

definition validate_optional :: "(json \<Rightarrow> 'a option) \<Rightarrow> json \<Rightarrow> 'a option option" where
  "validate_optional validate v = (case v of JNull \<Rightarrow> Some None | _ \<Rightarrow> map_option Some (validate v))"

definition validate_str_list :: "env \<Rightarrow> json list \<Rightarrow> string list option" where
  "validate_str_list env vs = those (map (validate_str env) vs)"

text \<open>The arguments are in the order of the call in \<^verbatim>\<open>map_listing_to_advert\<close>;
  \<^verbatim>\<open>extPrice\<close> is always \<^verbatim>\<open>None\<close> there. One invalid field fails the construction.\<close>

definition AdvertModel_init ::
  "env \<Rightarrow> json \<Rightarrow> int \<Rightarrow> int \<Rightarrow> json \<Rightarrow> json \<Rightarrow> json \<Rightarrow> json \<Rightarrow> json \<Rightarrow> json list \<Rightarrow> json \<Rightarrow> json
     \<Rightarrow> json \<Rightarrow> json \<Rightarrow> json \<Rightarrow> int \<Rightarrow> int \<Rightarrow> int \<Rightarrow> py_error + AdvertModel" where
  "AdvertModel_init env id_arg source_id type_id url_arg region_id_arg region_arg district_arg
       title_arg photos_arg rooms_arg area_arg price_arg currency_arg agency_arg
       date_arg created_at_arg valid_to_arg =
     (case do {
        v_id \<leftarrow> validate_int env id_arg;
        v_url \<leftarrow> validate_str env url_arg;
        v_region_id \<leftarrow> validate_int env region_id_arg;
        v_region \<leftarrow> validate_str env region_arg;
        v_district \<leftarrow> validate_optional (validate_str env) district_arg;
        v_title \<leftarrow> validate_str env title_arg;
        v_photos \<leftarrow> validate_str_list env photos_arg;
        v_rooms \<leftarrow> validate_optional (validate_int env) rooms_arg;
        v_area \<leftarrow> validate_optional (validate_float env) area_arg;
        v_price \<leftarrow> validate_optional (validate_float env) price_arg;
        v_currency \<leftarrow> validate_str env currency_arg;
        v_agency \<leftarrow> validate_bool env agency_arg;
        Some \<lparr> advert_id = v_id, sourceId = source_id, typeId = type_id, url = v_url,
               regionId = v_region_id, region = v_region, district = v_district,
               title = v_title, photos = v_photos, rooms = v_rooms, area = v_area,
               price = v_price, currency = v_currency, extPrice = None, agency = v_agency,
               date = Some date_arg, createdAt = Some created_at_arg,
               validTo = Some valid_to_arg \<rparr>
      } of
        None \<Rightarrow> Inl ValidationError
      | Some advert \<Rightarrow> Inr advert)"

text \<open>The formats of \<^verbatim>\<open>_parse_datetime\<close>, in its order.\<close>

definition formats :: "string list" where
  "formats = [''%Y-%m-%dT%H:%M:%S.%fZ'', ''%Y-%m-%dT%H:%M:%SZ'', ''%Y-%m-%d %H:%M:%S'', ''%Y-%m-%d'']"

text \<open>
  The loop over the formats, with the number \<open>k\<close> of clock readings made so far: the
  first format that parses wins, a \<^verbatim>\<open>ValueError\<close> moves on to the next format, any other
  exception ends in the outer handler, and both that handler and the end of the loop
  return \<^verbatim>\<open>datetime.utcnow()\<close>.
\<close>

fun try_formats :: "env \<Rightarrow> string \<Rightarrow> string list \<Rightarrow> nat \<Rightarrow> datetime \<times> nat" where
  "try_formats env datetime_str [] k = (utcnow env k, Suc k)"
| "try_formats env datetime_str (fmt # fmts) k =
     (case strptime env datetime_str fmt of
        Inr d \<Rightarrow> (d, k)
      | Inl e \<Rightarrow>
          (if e = ValueError then try_formats env datetime_str fmts k
           else (utcnow env k, Suc k)))"

text \<open>\<^verbatim>\<open>_parse_datetime\<close>: a falsy argument gives the clock; \<^verbatim>\<open>strptime\<close> raises
  \<^verbatim>\<open>TypeError\<close> on an argument that is not a string, which the outer handler turns into
  the clock as well. It never returns \<^verbatim>\<open>None\<close> and never raises.\<close>

definition parse_datetime :: "env \<Rightarrow> json \<Rightarrow> nat \<Rightarrow> datetime \<times> nat" where
  "parse_datetime env datetime_str k =
     (if \<not> truthy datetime_str then (utcnow env k, Suc k)
      else (case datetime_str of
              JStr s \<Rightarrow> try_formats env s formats k
            | _ \<Rightarrow> (utcnow env k, Suc k)))"

text \<open>A \<^verbatim>\<open>datetime\<close> object is always true in a condition.\<close>

definition datetime_truthy :: "datetime \<Rightarrow> bool" where
  "datetime_truthy d = True"

definition photos_of :: "(string \<times> json) list \<Rightarrow> py_error + json list" where
  "photos_of kv =
     (if truthy (get kv ''photos_urls'' JNull)
      then bind_exc (subscript0 (get kv ''photos_urls'' (JArr []))) (\<lambda>first. Inr [first])
      else Inr [])"

text \<open>
  The body of the \<^verbatim>\<open>try\<close> block of \<^verbatim>\<open>map_listing_to_advert\<close>: the result or the exception,
  and the number of clock readings after it. A listing that is not a dict has no
  \<^verbatim>\<open>get\<close>.
\<close>

definition map_listing_body :: "env \<Rightarrow> json \<Rightarrow> nat \<Rightarrow> (py_error + AdvertModel) \<times> nat" where
  "map_listing_body env listing k =
     (case listing of
        JObj kv \<Rightarrow>
          (case photos_of kv of
             Inl e \<Rightarrow> (Inl e, k)
           | Inr photos_arg \<Rightarrow>
               (let (created_time, k1) = parse_datetime env (get kv ''created_time'' JNull) k;
                    (valid_to_time, k2) = parse_datetime env (get kv ''valid_to_time'' JNull) k1;
                    (parsed_at, k3) = parse_datetime env (get kv ''parsed_at'' JNull) k2
                in (bind_exc (table_get source_mapping (get kv ''source'' (JStr ''unknown'')) 0) (\<lambda>source_id.
                    bind_exc (table_get type_mapping (get kv ''offer_type'' (JStr ''RENT'')) 1) (\<lambda>type_id.
                    bind_exc (epoch_millis env parsed_at) (\<lambda>date_arg.
                    bind_exc (epoch_millis env created_time) (\<lambda>created_at_arg.
                    bind_exc (if datetime_truthy valid_to_time then epoch_millis env valid_to_time
                              else epoch_millis env created_time) (\<lambda>valid_to_arg.
                    AdvertModel_init env
                      (get kv ''id'' (JInt 0))
                      source_id
                      type_id
                      (get kv ''url'' (JStr ''''))
                      (get kv ''region_id'' (JInt 0))
                      (py_or (get kv ''city'' (JStr '''')) (get kv ''region'' (JStr '''')))
                      (py_or (get kv ''district'' (JStr '''')) (JStr ''''))
                      (get kv ''title'' (JStr ''''))
                      photos_arg
                      (get kv ''rooms'' (JInt 0))
                      (get kv ''area_m2'' JNull)
                      (get kv ''price'' JNull)
                      (get kv ''currency_code'' (JStr ''zl''))
                      (get kv ''is_business'' (JBool True))
                      date_arg created_at_arg valid_to_arg))))), k3)))
      | _ \<Rightarrow> (Inl AttributeError, k))"

text \<open>\<^verbatim>\<open>map_listing_to_advert\<close>: \<^verbatim>\<open>except Exception\<close> logs and returns \<^verbatim>\<open>None\<close>.\<close>

definition map_listing_to_advert :: "env \<Rightarrow> json \<Rightarrow> nat \<Rightarrow> AdvertModel option \<times> nat" where
  "map_listing_to_advert env listing k =
     (case map_listing_body env listing k of
        (Inl e, k') \<Rightarrow> (None, k')
      | (Inr advert, k') \<Rightarrow> (Some advert, k'))"

text \<open>The loop of \<^verbatim>\<open>get_listings_mapped\<close>: the adverts that are not \<^verbatim>\<open>None\<close>, in order,
  and the number of clock readings at the end.\<close>

fun map_listings :: "env \<Rightarrow> json list \<Rightarrow> nat \<Rightarrow> AdvertModel list \<times> nat" where
  "map_listings env [] k = ([], k)"
| "map_listings env (listing # listings) k =
     (case map_listing_to_advert env listing k of
        (None, k') \<Rightarrow> map_listings env listings k'
      | (Some advert, k') \<Rightarrow>
          (case map_listings env listings k' of (mapped_adverts, k'') \<Rightarrow> (advert # mapped_adverts, k'')))"

text \<open>\<^verbatim>\<open>get_listings_mapped\<close>: every exception of \<^verbatim>\<open>get_listings\<close> or of the iteration
  gives the empty list.\<close>

definition get_listings_mapped ::
  "env \<Rightarrow> FilterModel option \<Rightarrow> ReadAdvertsRequest \<Rightarrow> nat \<Rightarrow> AdvertModel list" where
  "get_listings_mapped env filter_model pagination k =
     (case get_listings env filter_model pagination of
        Inl e \<Rightarrow> []
      | Inr listings \<Rightarrow>
          (case py_iter listings of
             Inl e \<Rightarrow> []
           | Inr items \<Rightarrow> fst (map_listings env items k)))"

section \<open>Sample surroundings\<close>

text \<open>
  \<^verbatim>\<open>int(d.timestamp() * 1000)\<close> on a host whose local time zone is UTC, for a datetime with
  whole seconds: the days since 1970-01-01 by the civil-calendar formula, then seconds and
  milliseconds.
\<close>

definition days_from_civil :: "int \<Rightarrow> int \<Rightarrow> int \<Rightarrow> int" where
  "days_from_civil y m d =
     (let y' = (if m \<le> 2 then y - 1 else y);
          era = y' div 400;
          yoe = y' - era * 400;
          doy = (153 * (if m > 2 then m - 3 else m + 9) + 2) div 5 + d - 1;
          doe = yoe * 365 + yoe div 4 - yoe div 100 + doy
      in era * 146097 + doe - 719468)"

definition utc_epoch_millis :: "datetime \<Rightarrow> py_error + int" where
  "utc_epoch_millis d =
     Inr (((days_from_civil (year d) (month d) (day d) * 86400
            + hour d * 3600 + minute d * 60 + second d) * 1000)
          + microsecond d div 1000)"

text \<open>A \<^verbatim>\<open>strptime\<close> that knows the one timestamp of the examples: the second format
  parses it, and every other call raises \<^verbatim>\<open>ValueError\<close>.\<close>

definition demo_strptime :: "string \<Rightarrow> string \<Rightarrow> py_error + datetime" where
  "demo_strptime s fmt =
     (if s = ''2024-01-01T00:00:00Z'' \<and> fmt = ''%Y-%m-%dT%H:%M:%SZ''
      then Inr \<lparr> year = 2024, month = 1, day = 1, hour = 0, minute = 0, second = 0, microsecond = 0 \<rparr>
      else Inl ValueError)"

text \<open>A clock that stands at noon of 2026-11-03.\<close>

definition demo_now :: datetime where
  "demo_now = \<lparr> year = 2026, month = 11, day = 3, hour = 12, minute = 0, second = 0, microsecond = 0 \<rparr>"

text \<open>Three provider records: one with \<^verbatim>\<open>created_time\<close> and no \<^verbatim>\<open>valid_to_time\<close> or
  \<^verbatim>\<open>is_business\<close>, one that is not an object, and one with \<^verbatim>\<open>is_business\<close>.\<close>

definition demo_listing :: json where
  "demo_listing = JObj [(''id'', JInt 7), (''created_time'', JStr ''2024-01-01T00:00:00Z'')]"

definition demo_bad_listing :: json where
  "demo_bad_listing = JStr ''garbage''"

definition demo_private_listing :: json where
  "demo_private_listing = JObj [(''id'', JInt 8), (''source'', JStr ''olx''), (''is_business'', JBool False)]"

text \<open>A provider that answers every request with a page of these three records.\<close>

definition demo_http_get :: "string \<Rightarrow> params \<Rightarrow> http_result" where
  "demo_http_get u q =
     HttpResponse 200 (Inr (JObj [(''items'', JArr [demo_listing, demo_bad_listing, demo_private_listing])]))"

definition demo_env :: env where
  "demo_env =
     \<lparr> base_url = ''http://listings.example'',
       endpoint = ''/api/v1/listings'',
       http_get = demo_http_get,
       district_cache = [3 \<mapsto> ''Mokotow''],
       read_regions = Inr [\<lparr> reg_id = 5, reg_name = ''Warsaw'', reg_names = Some [Some ''warsaw'', Some ''warszawa''], reg_status = True \<rparr>],
       capitalize = (\<lambda>s. if s = ''warszawa'' then ''Warszawa'' else s),
       strptime = demo_strptime,
       utcnow = (\<lambda>k. demo_now),
       epoch_millis = utc_epoch_millis,
       pydantic_int = (\<lambda>v. None),
       pydantic_float = (\<lambda>v. None),
       pydantic_str = (\<lambda>v. None),
       pydantic_bool = (\<lambda>v. None) \<rparr>"

text \<open>A filter as \<^verbatim>\<open>DbFilter.Read\<close> builds it for a user who chose apartments in region 5,
  a price range and the agency flag; and the request for the page before advert 42.\<close>

definition demo_filter :: FilterModel where
  "demo_filter =
     \<lparr> CountryId = 1, RegionId = 5, Districts = Some [3], Types = Some [2, 9], Rooms = Some [],
       Agency = True,
       Area = Some (RangeModel_init (Some (Some 0)) (Some (Some 2147483647))),
       Price = Some (RangeModel_init (Some (Some 1000)) (Some (Some 3000))) \<rparr>"

definition demo_request :: ReadAdvertsRequest where
  "demo_request = \<lparr> AdvertId = Some 42, Direction = Next, LastViewId = None \<rparr>"

section \<open>Properties of the query-parameter builder\<close>

text \<open>Each step of the builder writes its own keys only.\<close>


lemma add_city_other:
  "add_city env regions region_id q = Inr q' \<Longrightarrow> k \<noteq> ''city'' \<Longrightarrow> q' k = q k"
  by (induction regions) (auto split: if_splits option.splits)

lemma add_price_other:
  "k \<noteq> ''min_price'' \<Longrightarrow> k \<noteq> ''max_price'' \<Longrightarrow> add_price f q k = q k"
  by (simp add: add_price_def Let_def split: option.splits)

lemma add_area_other:
  "k \<noteq> ''min_area'' \<Longrightarrow> k \<noteq> ''max_area'' \<Longrightarrow> add_area f q k = q k"
  by (simp add: add_area_def Let_def split: option.splits)

lemma add_rooms_other: "k \<noteq> ''rooms'' \<Longrightarrow> add_rooms f q k = q k"
  by (simp add: add_rooms_def split: option.splits)

lemma add_agency_other: "k \<noteq> ''is_business'' \<Longrightarrow> add_agency f q k = q k"
  by (simp add: add_agency_def)

lemma add_districts_other: "k \<noteq> ''district'' \<Longrightarrow> add_districts env f q k = q k"
  by (simp add: add_districts_def Let_def split: option.splits)

lemma add_agency_is_business:
  "add_agency f q ''is_business'' = (if Agency f then Some (PBool False) else q ''is_business'')"
  by (simp add: add_agency_def)

lemma build_query_filters_Some:
  assumes "Types f = Some ts" and "ts \<noteq> []"
  shows "build_query_filters env (Some f) pagination =
     (if RegionId f \<noteq> 0
      then bind_exc (read_regions env) (\<lambda>regions. add_city env regions (RegionId f) (filters_before_city env f ts))
      else Inr (filters_before_city env f ts))"
proof -
  have q1: "add_building_type f [''offer_type'' \<mapsto> PStr ''RENT'']
      = [''offer_type'' \<mapsto> PStr ''RENT'', ''building_type'' \<mapsto> PStrs (expand_types ts)]"
    using assms by (simp add: add_building_type_def)
  show ?thesis
    by (simp add: build_query_filters_def filters_before_city_def q1 Let_def)
qed

lemma build_query_filters_Inr:
  assumes "build_query_filters env filter_model pagination = Inr q"
  obtains f ts where "filter_model = Some f" and "Types f = Some ts" and "ts \<noteq> []"
    and "\<And>k. k \<noteq> ''city'' \<Longrightarrow> q k = filters_before_city env f ts k"
proof -
  from assms obtain f where f: "filter_model = Some f"
    by (cases filter_model) (auto simp: build_query_filters_def)
  from assms f obtain ts where ts: "Types f = Some ts" "ts \<noteq> []"
    by (cases "Types f") (auto simp: build_query_filters_def add_building_type_def split: if_splits)
  have "q k = filters_before_city env f ts k" if "k \<noteq> ''city''" for k
    using assms that unfolding f build_query_filters_Some [OF ts]
    by (auto simp: bind_exc_def split: if_splits sum.splits dest: add_city_other)
  with f ts that show thesis by blast
qed


lemma add_price_min:
  "add_price f q ''min_price'' =
     (case Price f of None \<Rightarrow> q ''min_price''
      | Some r \<Rightarrow> (case range_from r of None \<Rightarrow> q ''min_price'' | Some v \<Rightarrow> Some (PInt v)))"
  by (simp add: add_price_def Let_def split: option.splits)

lemma add_price_max:
  "add_price f q ''max_price'' =
     (case Price f of None \<Rightarrow> q ''max_price''
      | Some r \<Rightarrow> (case range_to r of None \<Rightarrow> q ''max_price'' | Some v \<Rightarrow> Some (PInt v)))"
  by (simp add: add_price_def Let_def split: option.splits)

lemma add_area_min:
  "add_area f q ''min_area'' =
     (case Area f of None \<Rightarrow> q ''min_area''
      | Some r \<Rightarrow> (case range_from r of None \<Rightarrow> q ''min_area'' | Some v \<Rightarrow> Some (PInt v)))"
  by (simp add: add_area_def Let_def split: option.splits)

lemma add_area_max:
  "add_area f q ''max_area'' =
     (case Area f of None \<Rightarrow> q ''max_area''
      | Some r \<Rightarrow> (case range_to r of None \<Rightarrow> q ''max_area'' | Some v \<Rightarrow> Some (PInt v)))"
  by (simp add: add_area_def Let_def split: option.splits)

lemmas add_other =
  add_districts_other add_agency_other add_rooms_other add_area_other add_price_other

lemma filters_before_city_is_business:
  "filters_before_city env f ts ''is_business'' = (if Agency f then Some (PBool False) else None)"
  by (simp add: filters_before_city_def add_other add_agency_is_business)

lemma filters_before_city_building_type:
  "filters_before_city env f ts ''building_type'' = Some (PStrs (expand_types ts))"
  by (simp add: filters_before_city_def add_other)

lemma filters_before_city_id: "filters_before_city env f ts ''id'' = None"
  by (simp add: filters_before_city_def add_other)

lemma filters_before_city_min_price:
  "filters_before_city env f ts ''min_price'' =
     (case Price f of None \<Rightarrow> None | Some r \<Rightarrow> map_option PInt (range_from r))"
  by (simp add: filters_before_city_def add_other add_price_min split: option.splits)

lemma filters_before_city_max_price:
  "filters_before_city env f ts ''max_price'' =
     (case Price f of None \<Rightarrow> None | Some r \<Rightarrow> map_option PInt (range_to r))"
  by (simp add: filters_before_city_def add_other add_price_max split: option.splits)

lemma filters_before_city_min_area:
  "filters_before_city env f ts ''min_area'' =
     (case Area f of None \<Rightarrow> None | Some r \<Rightarrow> map_option PInt (range_from r))"
  by (simp add: filters_before_city_def add_other add_area_min split: option.splits)

lemma filters_before_city_max_area:
  "filters_before_city env f ts ''max_area'' =
     (case Area f of None \<Rightarrow> None | Some r \<Rightarrow> map_option PInt (range_to r))"
  by (simp add: filters_before_city_def add_other add_area_max split: option.splits)

lemma set_expand_types:
  "set (expand_types ts) =
     (\<Union>t\<in>set ts. case reverse_building_type_mapping t of None \<Rightarrow> {} | Some bts \<Rightarrow> bt_value ` set bts)"
  by (induction ts) (auto simp: expand_types_def split: option.splits)

text \<open>The builder in the sample surroundings, for a filter of region 5.\<close>

lemma demo_regions: "read_regions demo_env = Inr [\<lparr> reg_id = 5, reg_name = ''Warsaw'', reg_names = Some [Some ''warsaw'', Some ''warszawa''], reg_status = True \<rparr>]"
  by (simp add: demo_env_def)

lemma demo_capitalize: "capitalize demo_env ''warszawa'' = ''Warszawa''"
  by (simp add: demo_env_def)

lemma demo_add_city:
  "add_city demo_env [\<lparr> reg_id = 5, reg_name = ''Warsaw'', reg_names = Some [Some ''warsaw'', Some ''warszawa''], reg_status = True \<rparr>] 5 q
    = Inr (q(''city'' \<mapsto> PStrs [''Warszawa'']))"
  by (simp add: demo_capitalize)

lemma demo_build_query_filters:
  assumes "Types f = Some ts" and "ts \<noteq> []" and "RegionId f = 5"
  shows "build_query_filters demo_env (Some f) pagination =
     Inr ((filters_before_city demo_env f ts)(''city'' \<mapsto> PStrs [''Warszawa'']))"
  by (simp add: build_query_filters_Some [OF assms(1,2)] assms(3) demo_regions bind_exc_def demo_capitalize)

section \<open>Claims on the query-parameter builder\<close>

text \<open>
  C7. For every filter with \<^verbatim>\<open>Agency\<close> true, the parameters that \<^verbatim>\<open>_build_query_filters\<close>
  builds set \<^verbatim>\<open>is_business\<close> to \<^verbatim>\<open>False\<close>; when \<^verbatim>\<open>Agency\<close> is false there is no
  \<^verbatim>\<open>is_business\<close> parameter.
\<close>

theorem agency_flag_inverts_to_is_business:
  assumes "build_query_filters env (Some f) pagination = Inr q"
  shows "q ''is_business'' = (if Agency f then Some (PBool False) else None)"
proof -
  from assms obtain ts where "q ''is_business'' = filters_before_city env f ts ''is_business''"
    by (elim build_query_filters_Inr) simp
  then show ?thesis by (simp only: filters_before_city_is_business)
qed

theorem agency_flag_inverts_to_is_business_witness:
  "Agency demo_filter
   \<and> map_sum id (\<lambda>q. q ''is_business'') (build_query_filters demo_env (Some demo_filter) demo_request)
       = Inr (Some (PBool False))
   \<and> map_sum id (\<lambda>q. q ''is_business'')
       (build_query_filters demo_env (Some (demo_filter\<lparr>Agency := False\<rparr>)) demo_request)
       = Inr None"
proof -
  have t: "Types demo_filter = Some [2, 9]" "RegionId demo_filter = 5" "Agency demo_filter"
    by (simp_all add: demo_filter_def)
  have b1: "build_query_filters demo_env (Some demo_filter) demo_request =
      Inr ((filters_before_city demo_env demo_filter [2, 9])(''city'' \<mapsto> PStrs [''Warszawa'']))"
    by (rule demo_build_query_filters) (simp_all add: t)
  have b2: "build_query_filters demo_env (Some (demo_filter\<lparr>Agency := False\<rparr>)) demo_request =
      Inr ((filters_before_city demo_env (demo_filter\<lparr>Agency := False\<rparr>) [2, 9])(''city'' \<mapsto> PStrs [''Warszawa'']))"
    by (rule demo_build_query_filters) (simp_all add: t)
  show ?thesis
    using agency_flag_inverts_to_is_business [OF b1] agency_flag_inverts_to_is_business [OF b2]
    by (simp add: b1 b2 t)
qed

text \<open>
  C8. For a filter whose list of type ids is not empty, the \<^verbatim>\<open>building_type\<close> parameter is,
  as a set, the union of the entries that the reverse mapping has for the ids; an id with
  no entry adds nothing, and the list itself may repeat a value.
\<close>

theorem building_type_is_union_of_reverse_mapping:
  assumes "build_query_filters env (Some f) pagination = Inr q"
    and "Types f = Some ts" and "ts \<noteq> []"
  shows "\<exists>bts. q ''building_type'' = Some (PStrs bts)
     \<and> set bts = (\<Union>t\<in>set ts. case reverse_building_type_mapping t of
                                  None \<Rightarrow> {} | Some entries \<Rightarrow> bt_value ` set entries)"
proof -
  from assms(1) obtain ts' where ts': "Types f = Some ts'"
    and q: "q ''building_type'' = filters_before_city env f ts' ''building_type''"
    by (elim build_query_filters_Inr) simp
  from ts' assms(2) have "ts' = ts" by simp
  with q have *: "q ''building_type'' = Some (PStrs (expand_types ts))"
    by (simp only: filters_before_city_building_type)
  show ?thesis
  proof (intro exI conjI)
    show "q ''building_type'' = Some (PStrs (expand_types ts))" by (rule *)
    show "set (expand_types ts) = (\<Union>t\<in>set ts. case reverse_building_type_mapping t of
                                  None \<Rightarrow> {} | Some entries \<Rightarrow> bt_value ` set entries)"
      by (rule set_expand_types)
  qed
qed


theorem building_type_is_union_of_reverse_mapping_witness:
  "\<exists>bts. map_sum id (\<lambda>q. q ''building_type'')
            (build_query_filters demo_env (Some demo_filter) demo_request) = Inr (Some (PStrs bts))
      \<and> set bts = {''BLOCK'', ''APARTMENT_BUILDING'', ''INFILL'', ''RIBBON'', ''LOFT''}"
proof -
  have t: "Types demo_filter = Some [2, 9]" "RegionId demo_filter = 5"
    by (simp_all add: demo_filter_def)
  have b1: "build_query_filters demo_env (Some demo_filter) demo_request =
      Inr ((filters_before_city demo_env demo_filter [2, 9])(''city'' \<mapsto> PStrs [''Warszawa'']))"
    by (rule demo_build_query_filters) (simp_all add: t)
  have r2: "reverse_building_type_mapping 2 = Some [BLOCK, APARTMENT_BUILDING, INFILL, RIBBON, LOFT]"
    by (simp add: reverse_building_type_mapping_def)
  have r9: "reverse_building_type_mapping 9 = None"
    by (simp add: reverse_building_type_mapping_def)
  from building_type_is_union_of_reverse_mapping [OF b1 t(1)]
  obtain bts where bts: "((filters_before_city demo_env demo_filter [2, 9])(''city'' \<mapsto> PStrs [''Warszawa'']))
        ''building_type'' = Some (PStrs bts)"
    and s: "set bts = (\<Union>t\<in>set [2, 9]. case reverse_building_type_mapping t of
                                  None \<Rightarrow> {} | Some entries \<Rightarrow> bt_value ` set entries)"
    by blast
  from s have "set bts = {''BLOCK'', ''APARTMENT_BUILDING'', ''INFILL'', ''RIBBON'', ''LOFT''}"
    by (simp add: r2 r9)
  with bts show ?thesis
    unfolding b1 by (intro exI [of _ bts]) simp
qed

lemma build_query_params_pagination_Inr:
  assumes "build_query_params_pagination env filter_model pagination = Inr q'"
  obtains q where "build_query_filters env filter_model pagination = Inr q"
    and "q' = add_pagination pagination q"
  using assms unfolding build_query_params_pagination_def bind_exc_def
  by (cases "build_query_filters env filter_model pagination") auto

lemma build_query_filters_id:
  assumes "build_query_filters env filter_model pagination = Inr q"
  shows "q ''id'' = None"
proof -
  from assms obtain f ts where "q ''id'' = filters_before_city env f ts ''id''"
    by (elim build_query_filters_Inr) simp
  then show ?thesis by (simp only: filters_before_city_id)
qed

text \<open>
  C6, as the code has it. Whenever the listings query is built it has \<^verbatim>\<open>limit\<close> 10. With an
  anchor advert id that is not 0, \<^verbatim>\<open>direction\<close> is \<^verbatim>\<open>after\<close> when the requested direction is
  \<^verbatim>\<open>Prev\<close> and \<^verbatim>\<open>before\<close> otherwise, and \<^verbatim>\<open>id\<close> is the anchor. With no anchor, or the
  anchor 0, and the direction \<^verbatim>\<open>Latest\<close>, \<^verbatim>\<open>direction\<close> is \<^verbatim>\<open>latest\<close> and there is no
  \<^verbatim>\<open>id\<close>.
\<close>

theorem pagination_parameters:
  assumes "build_query_params_pagination env filter_model pagination = Inr q"
  shows "q ''limit'' = Some (PInt 10)
     \<and> (\<forall>a. AdvertId pagination = Some a \<and> a \<noteq> 0 \<longrightarrow>
            q ''direction'' = Some (PStr (if Direction pagination = Prev then ''after'' else ''before''))
          \<and> q ''id'' = Some (PInt a))
     \<and> ((AdvertId pagination = None \<or> AdvertId pagination = Some 0) \<and> Direction pagination = Latest \<longrightarrow>
            q ''direction'' = Some (PStr ''latest'') \<and> q ''id'' = None)"
proof -
  from assms obtain q0 where q0: "build_query_filters env filter_model pagination = Inr q0"
    and q: "q = add_pagination pagination q0"
    by (rule build_query_params_pagination_Inr)
  have id0: "q0 ''id'' = None" by (rule build_query_filters_id [OF q0])
  have 1: "q ''limit'' = Some (PInt 10)"
    by (simp add: q add_pagination_def Let_def split: option.splits)
  have 2: "q ''direction'' = Some (PStr (if Direction pagination = Prev then ''after'' else ''before''))
          \<and> q ''id'' = Some (PInt a)" if "AdvertId pagination = Some a" "a \<noteq> 0" for a
    using that by (simp add: q add_pagination_def Let_def nonzero_def)
  have 3: "q ''direction'' = Some (PStr ''latest'') \<and> q ''id'' = None"
    if "AdvertId pagination = None \<or> AdvertId pagination = Some 0" "Direction pagination = Latest"
    using that id0 by (auto simp: q add_pagination_def Let_def nonzero_def)
  from 1 2 3 show ?thesis by blast
qed

theorem pagination_parameters_witness:
  "map_sum id (\<lambda>q. (q ''limit'', q ''direction'', q ''id''))
     (build_query_params_pagination demo_env (Some demo_filter) demo_request)
     = Inr (Some (PInt 10), Some (PStr ''before''), Some (PInt 42))
   \<and> map_sum id (\<lambda>q. (q ''limit'', q ''direction'', q ''id''))
     (build_query_params_pagination demo_env (Some demo_filter)
        \<lparr> AdvertId = None, Direction = Latest, LastViewId = None \<rparr>)
     = Inr (Some (PInt 10), Some (PStr ''latest''), None)"
proof -
  have t: "Types demo_filter = Some [2, 9]" "RegionId demo_filter = 5"
    by (simp_all add: demo_filter_def)
  have b: "build_query_filters demo_env (Some demo_filter) pg =
      Inr ((filters_before_city demo_env demo_filter [2, 9])(''city'' \<mapsto> PStrs [''Warszawa'']))" for pg
    by (rule demo_build_query_filters) (simp_all add: t)
  have p: "build_query_params_pagination demo_env (Some demo_filter) pg =
      Inr (add_pagination pg ((filters_before_city demo_env demo_filter [2, 9])(''city'' \<mapsto> PStrs [''Warszawa''])))" for pg
    by (simp add: build_query_params_pagination_def b bind_exc_def)
  have r: "AdvertId demo_request = Some 42" "Direction demo_request = Next" "Next \<noteq> Prev"
    by (simp_all add: demo_request_def Next_def Prev_def)
  show ?thesis
    using pagination_parameters [OF p [of demo_request]]
      pagination_parameters [OF p [of "\<lparr> AdvertId = None, Direction = Latest, LastViewId = None \<rparr>"]]
    by (simp add: p r)
qed

text \<open>
  C6 as stated fails for the anchor 0: \<^verbatim>\<open>if pagination.AdvertId\<close> is false for it, so the
  request \<^verbatim>\<open>{AdvertId: 0, Direction: Next}\<close> gets neither \<^verbatim>\<open>direction\<close> nor \<^verbatim>\<open>id\<close>.
\<close>

theorem anchor_zero_counterexample:
  "map_sum id (\<lambda>q. (q ''direction'', q ''id''))
     (build_query_params_pagination demo_env (Some demo_filter)
        \<lparr> AdvertId = Some 0, Direction = Next, LastViewId = None \<rparr>)
   = Inr (None, None)"
proof -
  have t: "Types demo_filter = Some [2, 9]" "RegionId demo_filter = 5"
    by (simp_all add: demo_filter_def)
  have b: "build_query_filters demo_env (Some demo_filter) pg =
      Inr ((filters_before_city demo_env demo_filter [2, 9])(''city'' \<mapsto> PStrs [''Warszawa'']))" for pg
    by (rule demo_build_query_filters) (simp_all add: t)
  have p: "build_query_params_pagination demo_env (Some demo_filter) pg =
      Inr (add_pagination pg ((filters_before_city demo_env demo_filter [2, 9])(''city'' \<mapsto> PStrs [''Warszawa''])))" for pg
    by (simp add: build_query_params_pagination_def b bind_exc_def)
  have d: "filters_before_city demo_env demo_filter [2, 9] ''direction'' = None"
    by (simp add: filters_before_city_def add_other)
  show ?thesis
    unfolding p
    by (simp add: add_pagination_def nonzero_def Next_def Latest_def d filters_before_city_id)
qed

text \<open>
  C5, as the code has it. Whenever the query is built, each of \<^verbatim>\<open>min_price\<close>,
  \<^verbatim>\<open>max_price\<close>, \<^verbatim>\<open>min_area\<close> and \<^verbatim>\<open>max_area\<close> is present exactly when the filter has
  the range and the bound in it is not \<^verbatim>\<open>None\<close>, and it carries the value of the bound,
  whatever that value is.
\<close>

theorem range_bounds_follow_the_filter:
  assumes "build_query_filters env (Some f) pagination = Inr q"
  shows "q ''min_price'' = (case Price f of None \<Rightarrow> None | Some r \<Rightarrow> map_option PInt (range_from r))
     \<and> q ''max_price'' = (case Price f of None \<Rightarrow> None | Some r \<Rightarrow> map_option PInt (range_to r))
     \<and> q ''min_area'' = (case Area f of None \<Rightarrow> None | Some r \<Rightarrow> map_option PInt (range_from r))
     \<and> q ''max_area'' = (case Area f of None \<Rightarrow> None | Some r \<Rightarrow> map_option PInt (range_to r))"
proof -
  from assms obtain ts where q: "\<And>k. k \<noteq> ''city'' \<Longrightarrow> q k = filters_before_city env f ts k"
    by (elim build_query_filters_Inr) simp
  have "q ''min_price'' = filters_before_city env f ts ''min_price''" by (rule q) simp
  moreover have "q ''max_price'' = filters_before_city env f ts ''max_price''" by (rule q) simp
  moreover have "q ''min_area'' = filters_before_city env f ts ''min_area''" by (rule q) simp
  moreover have "q ''max_area'' = filters_before_city env f ts ''max_area''" by (rule q) simp
  ultimately show ?thesis
    by (simp only: filters_before_city_min_price filters_before_city_max_price
          filters_before_city_min_area filters_before_city_max_area)
qed

theorem range_bounds_follow_the_filter_witness:
  "map_sum id (\<lambda>q. (q ''min_price'', q ''max_price'', q ''min_area'', q ''max_area''))
     (build_query_filters demo_env
        (Some (demo_filter\<lparr>Area := Some (RangeModel_init (Some None) (Some (Some 80)))\<rparr>)) demo_request)
   = Inr (Some (PInt 1000), Some (PInt 3000), None, Some (PInt 80))"
proof -
  let ?f = "demo_filter\<lparr>Area := Some (RangeModel_init (Some None) (Some (Some 80)))\<rparr>"
  have t: "Types ?f = Some [2, 9]" "RegionId ?f = 5"
    by (simp_all add: demo_filter_def)
  have b: "build_query_filters demo_env (Some ?f) demo_request =
      Inr ((filters_before_city demo_env ?f [2, 9])(''city'' \<mapsto> PStrs [''Warszawa'']))"
    by (rule demo_build_query_filters) (simp_all add: t)
  have v: "Price ?f = Some \<lparr>range_from = Some 1000, range_to = Some 3000\<rparr>"
      "Area ?f = Some \<lparr>range_from = None, range_to = Some 80\<rparr>"
    by (simp_all add: demo_filter_def RangeModel_init_def)
  show ?thesis
    using range_bounds_follow_the_filter [OF b]
    by (simp add: b v)
qed

text \<open>
  C5 as stated fails: a price range built with no argument, \<^verbatim>\<open>RangeModel()\<close>, holds the
  defaults 0 and \<open>2^31 - 1\<close>, neither is \<^verbatim>\<open>None\<close>, and both are sent.
\<close>

theorem default_bounds_sent_counterexample:
  "map_sum id (\<lambda>q. (q ''min_price'', q ''max_price''))
     (build_query_filters demo_env
        (Some (demo_filter\<lparr>Price := Some (RangeModel_init None None)\<rparr>)) demo_request)
   = Inr (Some (PInt 0), Some (PInt 2147483647))"
proof -
  let ?f = "demo_filter\<lparr>Price := Some (RangeModel_init None None)\<rparr>"
  have t: "Types ?f = Some [2, 9]" "RegionId ?f = 5"
    by (simp_all add: demo_filter_def)
  have b: "build_query_filters demo_env (Some ?f) demo_request =
      Inr ((filters_before_city demo_env ?f [2, 9])(''city'' \<mapsto> PStrs [''Warszawa'']))"
    by (rule demo_build_query_filters) (simp_all add: t)
  have v: "Price ?f = Some \<lparr>range_from = Some 0, range_to = Some 2147483647\<rparr>"
    by (simp add: RangeModel_init_def)
  show ?thesis
    by (simp add: b filters_before_city_min_price filters_before_city_max_price v)
qed

section \<open>Claims on the fetches\<close>

text \<open>The builder does not look at the HTTP client.\<close>

lemma add_city_http_get:
  "add_city (env\<lparr>http_get := h\<rparr>) regions region_id q = add_city env regions region_id q"
  by (induction regions) (simp_all split: option.splits)

lemma add_districts_http_get:
  "add_districts (env\<lparr>http_get := h\<rparr>) f q = add_districts env f q"
  by (simp add: add_districts_def get_district_names_def split: option.splits)

lemma build_query_filters_http_get:
  "build_query_filters (env\<lparr>http_get := h\<rparr>) filter_model pagination
     = build_query_filters env filter_model pagination"
  by (simp add: build_query_filters_def add_districts_http_get add_city_http_get Let_def
        split: option.splits)

lemma demo_build_query_params_pagination:
  "build_query_params_pagination (demo_env\<lparr>http_get := h\<rparr>) (Some demo_filter) pg =
     Inr (add_pagination pg
           ((filters_before_city demo_env demo_filter [2, 9])(''city'' \<mapsto> PStrs [''Warszawa''])))"
proof -
  have "build_query_filters demo_env (Some demo_filter) pg =
      Inr ((filters_before_city demo_env demo_filter [2, 9])(''city'' \<mapsto> PStrs [''Warszawa'']))"
    by (rule demo_build_query_filters) (simp_all add: demo_filter_def)
  then show ?thesis
    by (simp add: build_query_params_pagination_def build_query_filters_http_get bind_exc_def)
qed

lemma demo_build_query_params_missed:
  "build_query_params_missed (demo_env\<lparr>http_get := h\<rparr>) (Some demo_filter) demo_request =
     Inr ((filters_before_city demo_env demo_filter [2, 9])(''city'' \<mapsto> PStrs [''Warszawa'']))"
proof -
  have "build_query_filters demo_env (Some demo_filter) demo_request =
      Inr ((filters_before_city demo_env demo_filter [2, 9])(''city'' \<mapsto> PStrs [''Warszawa'']))"
    by (rule demo_build_query_filters) (simp_all add: demo_filter_def)
  then show ?thesis
    by (simp add: build_query_params_missed_def build_query_filters_http_get bind_exc_def
          nonzero_def demo_request_def)
qed

text \<open>
  C4. When the parameters are built and the provider answers the request with a status
  other than 200, \<^verbatim>\<open>get_listings\<close> returns the empty list and \<^verbatim>\<open>get_missed\<close> returns 0;
  neither raises.
\<close>

theorem non_200_is_empty_result:
  assumes "status_code \<noteq> 200"
  shows "(build_query_params_pagination env filter_model pagination = Inr q
          \<and> http_get env (base_url env @ endpoint env) q = HttpResponse status_code body
          \<longrightarrow> get_listings env filter_model pagination = Inr (JArr []))
       \<and> (build_query_params_missed env filter_model pagination = Inr q'
          \<and> http_get env (base_url env @ ''/api/v1/listings/new/count'') q' = HttpResponse status_code body'
          \<longrightarrow> get_missed env filter_model pagination = Inr (JInt 0))"
  using assms by (simp add: get_listings_def get_missed_def)

theorem non_200_is_empty_result_witness:
  "get_listings (demo_env\<lparr>http_get := (\<lambda>u q. HttpResponse 503 (Inl JSONDecodeError))\<rparr>)
      (Some demo_filter) demo_request = Inr (JArr [])
   \<and> get_missed (demo_env\<lparr>http_get := (\<lambda>u q. HttpResponse 503 (Inl JSONDecodeError))\<rparr>)
      (Some demo_filter) demo_request = Inr (JInt 0)"
proof -
  let ?env = "demo_env\<lparr>http_get := (\<lambda>u q. HttpResponse 503 (Inl JSONDecodeError))\<rparr>"
  have s: "(503::int) \<noteq> 200" by simp
  have h: "http_get ?env u q = HttpResponse 503 (Inl JSONDecodeError)" for u q
    by simp
  from non_200_is_empty_result [OF s, of ?env "Some demo_filter" demo_request _ "Inl JSONDecodeError" _ "Inl JSONDecodeError"]
    demo_build_query_params_pagination [of _ demo_request] demo_build_query_params_missed h
  show ?thesis by blast
qed

text \<open>
  C1 says that a timeout of the HTTP client reaches the caller as
  \<^verbatim>\<open>ApiException("External listings API timeout")\<close>. The code does not do that: the request
  is inside the inner \<^verbatim>\<open>try\<close>, whose \<^verbatim>\<open>except Exception\<close> catches the timeout first, so
  \<^verbatim>\<open>get_listings\<close> returns the empty list and the outer \<^verbatim>\<open>except httpx.TimeoutException\<close> is
  never reached from the request. For every call in which the parameters are built and
  the client raises the timeout, the result is the empty list.
\<close>

theorem client_timeout_gives_empty_list:
  assumes "build_query_params_pagination env filter_model pagination = Inr q"
    and "http_get env (base_url env @ endpoint env) q = HttpRaises TimeoutException"
  shows "get_listings env filter_model pagination = Inr (JArr [])"
  using assms by (simp add: get_listings_def)

theorem client_timeout_gives_empty_list_witness:
  "get_listings (demo_env\<lparr>http_get := (\<lambda>u q. HttpRaises TimeoutException)\<rparr>)
      (Some demo_filter) demo_request = Inr (JArr [])
   \<and> get_listings (demo_env\<lparr>http_get := (\<lambda>u q. HttpRaises TimeoutException)\<rparr>)
      (Some demo_filter) demo_request \<noteq> Inl (ApiException ''External listings API timeout'')"
proof -
  let ?env = "demo_env\<lparr>http_get := (\<lambda>u q. HttpRaises TimeoutException)\<rparr>"
  have h: "http_get ?env u q = HttpRaises TimeoutException" for u q
    by simp
  have "get_listings ?env (Some demo_filter) demo_request = Inr (JArr [])"
    by (rule client_timeout_gives_empty_list [OF demo_build_query_params_pagination h])
  then show ?thesis by simp
qed

text \<open>
  C3 says that a request with no filter, or with a filter that has no types, is built
  without \<^verbatim>\<open>building_type\<close> and answered with the latest listings. The code does not do
  that: \<^verbatim>\<open>None\<close> has no attribute \<^verbatim>\<open>Types\<close>, and with \<^verbatim>\<open>Types\<close> absent or empty
  \<^verbatim>\<open>print(params["building_type"])\<close> raises \<^verbatim>\<open>KeyError\<close>; in each case \<^verbatim>\<open>get_listings\<close>
  raises \<^verbatim>\<open>ApiException("Internal error in listings service")\<close>.
\<close>

theorem missing_type_filter_is_internal_error:
  assumes "filter_model = None
     \<or> (\<exists>f. filter_model = Some f \<and> (Types f = None \<or> Types f = Some []))"
  shows "get_listings env filter_model pagination
     = Inl (ApiException ''Internal error in listings service'')"
proof -
  from assms have "build_query_filters env filter_model pagination = Inl AttributeError
      \<or> build_query_filters env filter_model pagination = Inl KeyError"
    by (auto simp: build_query_filters_def add_building_type_def)
  then show ?thesis
    by (auto simp: get_listings_def build_query_params_pagination_def bind_exc_def outer_handlers_def)
qed

theorem missing_type_filter_is_internal_error_witness:
  "get_listings demo_env None demo_request = Inl (ApiException ''Internal error in listings service'')
   \<and> get_listings demo_env (Some (demo_filter\<lparr>Types := None\<rparr>)) demo_request
       = Inl (ApiException ''Internal error in listings service'')
   \<and> get_listings demo_env (Some (demo_filter\<lparr>Types := Some []\<rparr>)) demo_request
       = Inl (ApiException ''Internal error in listings service'')
   \<and> build_query_filters demo_env None demo_request = Inl AttributeError
   \<and> build_query_filters demo_env (Some (demo_filter\<lparr>Types := Some []\<rparr>)) demo_request = Inl KeyError"
proof -
  have 1: "get_listings demo_env None demo_request = Inl (ApiException ''Internal error in listings service'')"
    by (rule missing_type_filter_is_internal_error) simp
  have 2: "get_listings demo_env (Some (demo_filter\<lparr>Types := None\<rparr>)) demo_request
       = Inl (ApiException ''Internal error in listings service'')"
    by (rule missing_type_filter_is_internal_error) simp
  have 3: "get_listings demo_env (Some (demo_filter\<lparr>Types := Some []\<rparr>)) demo_request
       = Inl (ApiException ''Internal error in listings service'')"
    by (rule missing_type_filter_is_internal_error) simp
  have 4: "build_query_filters demo_env None demo_request = Inl AttributeError"
    by (simp add: build_query_filters_def)
  have 5: "build_query_filters demo_env (Some (demo_filter\<lparr>Types := Some []\<rparr>)) demo_request = Inl KeyError"
    by (simp add: build_query_filters_def add_building_type_def)
  from 1 2 3 4 5 show ?thesis by blast
qed

section \<open>Claims on the listing mapper\<close>

lemma AdvertModel_init_agency:
  assumes "AdvertModel_init env id_arg source_id type_id url_arg region_id_arg region_arg district_arg
       title_arg photos_arg rooms_arg area_arg price_arg currency_arg agency_arg
       date_arg created_at_arg valid_to_arg = Inr a"
  shows "validate_bool env agency_arg = Some (agency a)"
  using assms unfolding AdvertModel_init_def
  by (auto split: option.splits Option.bind_splits)

lemma map_listing_body_agency:
  assumes "map_listing_body env (JObj kv) k = (Inr a, k')"
  shows "validate_bool env (get kv ''is_business'' (JBool True)) = Some (agency a)"
  using assms unfolding map_listing_body_def bind_exc_def Let_def
  by (auto split: sum.splits prod.splits if_splits dest: AdvertModel_init_agency)

lemma AdvertModel_init_times:
  assumes "AdvertModel_init env id_arg source_id type_id url_arg region_id_arg region_arg district_arg
       title_arg photos_arg rooms_arg area_arg price_arg currency_arg agency_arg
       date_arg created_at_arg valid_to_arg = Inr a"
  shows "date a = Some date_arg \<and> createdAt a = Some created_at_arg \<and> validTo a = Some valid_to_arg"
  using assms unfolding AdvertModel_init_def
  by (auto split: option.splits Option.bind_splits)

lemma parse_datetime_absent: "parse_datetime env JNull k = (utcnow env k, Suc k)"
  by (simp add: parse_datetime_def)

lemma map_listings_append:
  "map_listings env (xs @ ys) k =
     (case map_listings env xs k of
        (mapped, k1) \<Rightarrow> (case map_listings env ys k1 of (mapped', k2) \<Rightarrow> (mapped @ mapped', k2)))"
  by (induction xs arbitrary: k) (auto split: prod.splits option.splits)

text \<open>
  C10. An advert mapped from a record without \<^verbatim>\<open>is_business\<close> has \<^verbatim>\<open>agency\<close> true; an
  advert mapped from a record whose \<^verbatim>\<open>is_business\<close> is a boolean has that boolean as
  \<^verbatim>\<open>agency\<close>, not its negation.
\<close>

theorem agency_is_is_business_verbatim:
  assumes "map_listing_to_advert env (JObj kv) k = (Some a, k')"
  shows "(map_of kv ''is_business'' = None \<longrightarrow> agency a = True)
       \<and> (\<forall>b. map_of kv ''is_business'' = Some (JBool b) \<longrightarrow> agency a = b)"
proof -
  from assms have "map_listing_body env (JObj kv) k = (Inr a, k')"
    by (auto simp: map_listing_to_advert_def split: prod.splits sum.splits)
  then have "validate_bool env (get kv ''is_business'' (JBool True)) = Some (agency a)"
    by (rule map_listing_body_agency)
  then show ?thesis
    by (auto simp: get_def validate_bool_def)
qed


theorem agency_is_is_business_verbatim_witness:
  "map_option agency (fst (map_listing_to_advert demo_env
      (JObj [(''id'', JInt 7), (''created_time'', JStr ''2024-01-01T00:00:00Z'')]) 0)) = Some True
   \<and> map_option agency (fst (map_listing_to_advert demo_env
      (JObj [(''id'', JInt 8), (''source'', JStr ''olx''), (''is_business'', JBool False)]) 0)) = Some False"
proof -
  let ?a1 = "\<lparr>advert_id = 7, sourceId = 0, typeId = 1, url = [], regionId = 0,
      region = [], district = Some [], title = [], photos = [],
      rooms = Some 0, area = None, price = None, currency = ''zl'',
      extPrice = None, agency = True, date = Some 1793707200000,
      createdAt = Some 1704067200000, validTo = Some 1793707200000\<rparr>"
  let ?a2 = "\<lparr>advert_id = 8, sourceId = 1, typeId = 1, url = [], regionId = 0,
      region = [], district = Some [], title = [], photos = [],
      rooms = Some 0, area = None, price = None, currency = ''zl'',
      extPrice = None, agency = False, date = Some 1793707200000,
      createdAt = Some 1793707200000, validTo = Some 1793707200000\<rparr>"
  have e1: "map_listing_to_advert demo_env
      (JObj [(''id'', JInt 7), (''created_time'', JStr ''2024-01-01T00:00:00Z'')]) 0 = (Some ?a1, 2)"
    by code_simp
  have e2: "map_listing_to_advert demo_env
      (JObj [(''id'', JInt 8), (''source'', JStr ''olx''), (''is_business'', JBool False)]) 0 = (Some ?a2, 3)"
    by code_simp
  from agency_is_is_business_verbatim [OF e1] agency_is_is_business_verbatim [OF e2]
  show ?thesis
    unfolding e1 e2 by simp
qed

text \<open>
  C2 says that a record with \<^verbatim>\<open>created_time\<close> and no \<^verbatim>\<open>valid_to_time\<close> gets
  \<^verbatim>\<open>validTo = createdAt\<close>. The code does not do that: \<^verbatim>\<open>_parse_datetime\<close> answers the
  missing \<^verbatim>\<open>valid_to_time\<close> with \<^verbatim>\<open>datetime.utcnow()\<close>, which is true in a condition, so the
  \<^verbatim>\<open>else\<close> branch with \<^verbatim>\<open>created_time\<close> is never taken. For every record without
  \<^verbatim>\<open>valid_to_time\<close> that maps to an advert, \<^verbatim>\<open>validTo\<close> is the reading of the clock taken
  after \<^verbatim>\<open>created_time\<close> was parsed, and \<^verbatim>\<open>createdAt\<close> is the parsed \<^verbatim>\<open>created_time\<close>. In
  the example after it \<^verbatim>\<open>created_time\<close> is 2024-01-01T00:00:00Z and the clock stands at
  2026-11-03 12:00.
\<close>

theorem valid_to_is_the_clock:
  assumes "map_listing_to_advert env (JObj kv) k = (Some a, k')"
    and "map_of kv ''valid_to_time'' = None"
    and "parse_datetime env (get kv ''created_time'' JNull) k = (created_time, k1)"
  shows "\<exists>now_ms created_ms.
           epoch_millis env (utcnow env k1) = Inr now_ms
         \<and> epoch_millis env created_time = Inr created_ms
         \<and> validTo a = Some now_ms \<and> createdAt a = Some created_ms"
proof -
  from assms(1) have body: "map_listing_body env (JObj kv) k = (Inr a, k')"
    by (auto simp: map_listing_to_advert_def split: prod.splits sum.splits)
  have v: "parse_datetime env (get kv ''valid_to_time'' JNull) k1 = (utcnow env k1, Suc k1)"
    using assms(2) by (simp add: get_def parse_datetime_absent)
  from body show ?thesis
    by (auto simp: map_listing_body_def bind_exc_def Let_def assms(3) v datetime_truthy_def
          split: sum.splits prod.splits dest!: AdvertModel_init_times)
qed

theorem valid_to_is_the_clock_witness:
  "map_option (\<lambda>a. (createdAt a, validTo a)) (fst (map_listing_to_advert demo_env
      (JObj [(''id'', JInt 7), (''created_time'', JStr ''2024-01-01T00:00:00Z'')]) 0))
     = Some (Some 1704067200000, Some 1793707200000)
   \<and> epoch_millis demo_env (utcnow demo_env 0) = Inr 1793707200000"
proof -
  let ?kv = "[(''id'', JInt 7), (''created_time'', JStr ''2024-01-01T00:00:00Z'')]"
  let ?a1 = "\<lparr>advert_id = 7, sourceId = 0, typeId = 1, url = [], regionId = 0,
      region = [], district = Some [], title = [], photos = [],
      rooms = Some 0, area = None, price = None, currency = ''zl'',
      extPrice = None, agency = True, date = Some 1793707200000,
      createdAt = Some 1704067200000, validTo = Some 1793707200000\<rparr>"
  have e: "map_listing_to_advert demo_env (JObj ?kv) 0 = (Some ?a1, 2)"
    by code_simp
  have n: "map_of ?kv ''valid_to_time'' = None"
    by simp
  have c: "parse_datetime demo_env (get ?kv ''created_time'' JNull) 0
     = (\<lparr> year = 2024, month = 1, day = 1, hour = 0, minute = 0, second = 0, microsecond = 0 \<rparr>, 0)"
    by code_simp
  have m: "epoch_millis demo_env (utcnow demo_env 0) = Inr 1793707200000"
    by code_simp
  from valid_to_is_the_clock [OF e n c] m show ?thesis
    unfolding e by simp
qed

text \<open>
  C9. When the mapping of one record of a page raises, \<^verbatim>\<open>map_listing_to_advert\<close> returns
  \<^verbatim>\<open>None\<close> for it and \<^verbatim>\<open>get_listings_mapped\<close> returns the adverts of the records before
  it followed by those of the records after it.
\<close>

theorem bad_record_is_dropped:
  assumes "get_listings env filter_model pagination = Inr (JArr (before @ bad # after))"
    and "map_listings env before k = (mapped_before, k1)"
    and "map_listing_body env bad k1 = (Inl e, k2)"
    and "map_listings env after k2 = (mapped_after, k3)"
  shows "map_listing_to_advert env bad k1 = (None, k2)
       \<and> get_listings_mapped env filter_model pagination k = mapped_before @ mapped_after"
proof -
  from assms(3) have bad: "map_listing_to_advert env bad k1 = (None, k2)"
    by (simp add: map_listing_to_advert_def)
  have "map_listings env (before @ bad # after) k = (mapped_before @ mapped_after, k3)"
    by (simp add: map_listings_append assms(2) bad assms(4))
  with bad show ?thesis
    by (simp add: get_listings_mapped_def assms(1))
qed


theorem bad_record_is_dropped_witness:
  "fst (map_listing_to_advert demo_env demo_bad_listing 2) = None
   \<and> get_listings_mapped demo_env (Some demo_filter) demo_request 0 =
     [\<lparr>advert_id = 7, sourceId = 0, typeId = 1, url = [], regionId = 0,
        region = [], district = Some [], title = [], photos = [],
        rooms = Some 0, area = None, price = None, currency = ''zl'',
        extPrice = None, agency = True, date = Some 1793707200000,
        createdAt = Some 1704067200000, validTo = Some 1793707200000\<rparr>,
      \<lparr>advert_id = 8, sourceId = 1, typeId = 1, url = [], regionId = 0,
        region = [], district = Some [], title = [], photos = [],
        rooms = Some 0, area = None, price = None, currency = ''zl'',
        extPrice = None, agency = False, date = Some 1793707200000,
        createdAt = Some 1793707200000, validTo = Some 1793707200000\<rparr>]"
proof -
  let ?a1 = "\<lparr>advert_id = 7, sourceId = 0, typeId = 1, url = [], regionId = 0,
      region = [], district = Some [], title = [], photos = [],
      rooms = Some 0, area = None, price = None, currency = ''zl'',
      extPrice = None, agency = True, date = Some 1793707200000,
      createdAt = Some 1704067200000, validTo = Some 1793707200000\<rparr>"
  let ?a2 = "\<lparr>advert_id = 8, sourceId = 1, typeId = 1, url = [], regionId = 0,
      region = [], district = Some [], title = [], photos = [],
      rooms = Some 0, area = None, price = None, currency = ''zl'',
      extPrice = None, agency = False, date = Some 1793707200000,
      createdAt = Some 1793707200000, validTo = Some 1793707200000\<rparr>"
  have g: "get_listings demo_env (Some demo_filter) demo_request
      = Inr (JArr ([demo_listing] @ demo_bad_listing # [demo_private_listing]))"
    by code_simp
  have m1: "map_listings demo_env [demo_listing] 0 = ([?a1], 2)"
    by code_simp
  have b: "map_listing_body demo_env demo_bad_listing 2 = (Inl AttributeError, 2)"
    by code_simp
  have m2: "map_listings demo_env [demo_private_listing] 2 = ([?a2], 5)"
    by code_simp
  from bad_record_is_dropped [OF g m1 b m2] show ?thesis
    by simp
qed

end
